theory Spec2Isabelle
  imports Complex_Main
begin

section \<open>Python values and exceptions\<close>

text \<open>
  The exceptions that the code of \<^verbatim>\<open>time_accessibility_map.py\<close> raises itself or
  receives from Python's built-in operations. A function that can raise returns
  \<open>py_error + 'a\<close>, with \<open>Inl\<close> for the exception.

  Python floats are modelled as real numbers (no rounding, no overflow); the only special
  value the code creates, \<^verbatim>\<open>float('inf')\<close>, is part of \<open>pyfloat\<close>.
\<close>

datatype py_error =
  IndexError | IOError | AttributeError | TypeError | ValueError
  | ZeroDivisionError | StatisticsError

datatype pyfloat = Finite real | PosInf | NegInf | NaN

text \<open>\<^verbatim>\<open>xs[i]\<close> on a list: a negative index counts from the end, an index out of
  range raises IndexError.\<close>

definition py_index :: "'a list \<Rightarrow> int \<Rightarrow> py_error + 'a" where
  "py_index xs i =
     (if 0 \<le> i \<and> i < int (length xs) then Inr (xs ! nat i)
      else if i < 0 \<and> - int (length xs) \<le> i then Inr (xs ! nat (int (length xs) + i))
      else Inl IndexError)"

text \<open>\<^verbatim>\<open>xs[0:limit]\<close>: a negative limit drops that many elements from the end.\<close>

definition py_slice_to :: "'a list \<Rightarrow> int \<Rightarrow> 'a list" where
  "py_slice_to xs limit =
     (if 0 \<le> limit then take (nat limit) xs
      else take (nat (int (length xs) + limit)) xs)"

text \<open>\<^verbatim>\<open>statistics.mean\<close> of a list of integers: exact, StatisticsError when empty.\<close>

definition mean :: "nat list \<Rightarrow> py_error + real" where
  "mean xs =
     (if xs = [] then Inl StatisticsError
      else Inr (real (sum_list xs) / real (length xs)))"

section \<open>The parsed result document\<close>

text \<open>
  A BeautifulSoup tree: a node is a string or a tag with a name, its \<^verbatim>\<open>id\<close>
  attribute (the only attribute the code reads) and its children.
\<close>

datatype node =
  NavigableString string
  | Tag string "string option" "node list"

fun descendants :: "node \<Rightarrow> node list" where
  "descendants (NavigableString s) = []"
| "descendants (Tag n i cs) = concat (map (\<lambda>c. c # descendants c) cs)"

fun is_tag_named :: "string \<Rightarrow> node \<Rightarrow> bool" where
  "is_tag_named nm (NavigableString s) = False"
| "is_tag_named nm (Tag n i cs) = (n = nm)"

text \<open>\<^verbatim>\<open>tag.find_all(name)\<close>: the descendant tags of that name, in document order.\<close>

definition find_all_name :: "string \<Rightarrow> node \<Rightarrow> node list" where
  "find_all_name nm t = filter (is_tag_named nm) (descendants t)"

text \<open>\<^verbatim>\<open>x.name\<close> for a tag name: the first descendant of that name or None when
  \<open>x\<close> is a tag, AttributeError when \<open>x\<close> is None.\<close>

fun dot :: "node option \<Rightarrow> string \<Rightarrow> py_error + node option" where
  "dot None nm = Inl AttributeError"
| "dot (Some t) nm =
     Inr (case find_all_name nm t of [] \<Rightarrow> None | x # _ \<Rightarrow> Some x)"

fun dots :: "node option \<Rightarrow> string list \<Rightarrow> py_error + node option" where
  "dots x [] = Inr x"
| "dots x (nm # nms) =
     (case dot x nm of Inl e \<Rightarrow> Inl e | Inr y \<Rightarrow> dots y nms)"

fun getText :: "node \<Rightarrow> string" where
  "getText (NavigableString s) = s"
| "getText (Tag n i cs) = concat (map getText cs)"

subsection \<open>The three regular expressions\<close>

definition is_digit :: "char \<Rightarrow> bool" where
  "is_digit c = (48 \<le> (of_char c :: nat) \<and> (of_char c :: nat) \<le> 57)"

text \<open>\<^verbatim>\<open>int(s)\<close> on a string of ASCII digits.\<close>

definition int_of_digits :: "string \<Rightarrow> nat" where
  "int_of_digits s = foldl (\<lambda>n c. 10 * n + (of_char c - 48)) 0 s"

definition starts_with :: "string \<Rightarrow> string \<Rightarrow> bool" where
  "starts_with s p = (take (length p) s = p)"

text \<open>
  A match of \<^verbatim>\<open>([0-9]+) unit\<close> at the start of \<open>s\<close>: the longest run of digits,
  then a space and the unit. A shorter run of digits is followed by a digit, not by the
  space, so backtracking finds nothing more. The result is group 1.
\<close>

definition match_number :: "string \<Rightarrow> string \<Rightarrow> string option" where
  "match_number unit s =
     (let ds = takeWhile is_digit s
      in if ds \<noteq> [] \<and> starts_with (dropWhile is_digit s) (CHR '' '' # unit)
         then Some ds else None)"

text \<open>\<^verbatim>\<open>re.search\<close>: the match at the leftmost position that has one.\<close>

fun re_search_number :: "string \<Rightarrow> string \<Rightarrow> string option" where
  "re_search_number unit [] = None"
| "re_search_number unit (c # cs) =
     (case match_number unit (c # cs) of
        Some g \<Rightarrow> Some g
      | None \<Rightarrow> re_search_number unit cs)"

text \<open>\<^verbatim>\<open>connectionBox-[0-9]+\<close> searched in an \<^verbatim>\<open>id\<close>.\<close>

fun re_search_connection_box :: "string \<Rightarrow> bool" where
  "re_search_connection_box [] = False"
| "re_search_connection_box (c # cs) =
     ((starts_with (c # cs) ''connectionBox-'' \<and>
       (case drop 14 (c # cs) of [] \<Rightarrow> False | d # _ \<Rightarrow> is_digit d))
      \<or> re_search_connection_box cs)"

fun is_connection_box :: "node \<Rightarrow> bool" where
  "is_connection_box (NavigableString s) = False"
| "is_connection_box (Tag n None cs) = False"
| "is_connection_box (Tag n (Some i) cs) = re_search_connection_box i"

text \<open>\<^verbatim>\<open>soup.find_all(id=connection_box_regex)\<close>\<close>

definition find_all_id :: "node \<Rightarrow> node list" where
  "find_all_id soup = filter is_connection_box (descendants soup)"

section \<open>City and Connection\<close>

text \<open>
  \<^verbatim>\<open>City.__init__\<close> only annotates \<^verbatim>\<open>coordinates\<close>: the attribute is absent until
  \<^verbatim>\<open>load_coordinates\<close> sets it, and \<^verbatim>\<open>set_all_coordinates\<close> also expects None.
\<close>

datatype coordinates_attr = Unset | IsNone | IsList "real list"

record City =
  name :: string
  district :: string
  population :: int
  coordinates :: coordinates_attr

text \<open>
  The trip durations and distances are sums and values of digit strings, so natural
  numbers. \<^verbatim>\<open>ratio_absolute\<close> is only annotated by \<^verbatim>\<open>__init__\<close>; \<^verbatim>\<open>date_time\<close>
  keeps its default and is left out.
\<close>

record Connection =
  from_city :: City
  to_city :: City
  veh_type :: string
  connections :: "node list"
  connections_times :: "nat list"
  connections_distances :: "nat list"
  distance :: real
  ratio_absolute :: "real option"

definition Connection_init :: "City \<Rightarrow> City \<Rightarrow> string \<Rightarrow> Connection" where
  "Connection_init from_c to_c veh =
     \<lparr>from_city = from_c, to_city = to_c, veh_type = veh, connections = [],
      connections_times = [], connections_distances = [], distance = 0,
      ratio_absolute = None\<rparr>"

subsection \<open>set_distance\<close>

text \<open>\<^verbatim>\<open>len(city.coordinates)\<close>\<close>

fun len_coordinates :: "coordinates_attr \<Rightarrow> py_error + nat" where
  "len_coordinates Unset = Inl AttributeError"
| "len_coordinates IsNone = Inl TypeError"
| "len_coordinates (IsList xs) = Inr (length xs)"

text \<open>\<^verbatim>\<open>city.coordinates[i]\<close>\<close>

fun coordinate :: "coordinates_attr \<Rightarrow> int \<Rightarrow> py_error + real" where
  "coordinate Unset i = Inl AttributeError"
| "coordinate IsNone i = Inl TypeError"
| "coordinate (IsList xs) i = py_index xs i"

definition radians :: "real \<Rightarrow> real" where
  "radians x = x * pi / 180"

text \<open>\<^verbatim>\<open>math.sqrt\<close> raises ValueError below 0.\<close>

definition math_sqrt :: "real \<Rightarrow> py_error + real" where
  "math_sqrt x = (if x < 0 then Inl ValueError else Inr (sqrt x))"

definition atan2 :: "real \<Rightarrow> real \<Rightarrow> real" where
  "atan2 y x =
     (if 0 < x then arctan (y / x)
      else if x < 0 \<and> 0 \<le> y then arctan (y / x) + pi
      else if x < 0 then arctan (y / x) - pi
      else if 0 < y then pi / 2
      else if y < 0 then - pi / 2
      else 0)"

text \<open>Lines 177 to 193: the haversine formula on the four angles in degrees.\<close>

definition haversine :: "real \<Rightarrow> real \<Rightarrow> real \<Rightarrow> real \<Rightarrow> py_error + real" where
  "haversine from1 from0 to1 to0 =
     (let R = 6373;
          lat1 = radians from1; lon1 = radians from0;
          lat2 = radians to1; lon2 = radians to0;
          dlon = lon2 - lon1; dlat = lat2 - lat1;
          a = (sin (dlat / 2))\<^sup>2 + cos lat1 * cos lat2 * (sin (dlon / 2))\<^sup>2
      in case math_sqrt a of Inl e \<Rightarrow> Inl e
         | Inr sa \<Rightarrow>
           (case math_sqrt (1 - a) of Inl e \<Rightarrow> Inl e
            | Inr sb \<Rightarrow> Inr (R * (2 * atan2 sa sb))))"

text \<open>
  The distance between two cities, lines 174 to 193: the guard of line 174 (with
  Python's short-circuit \<^verbatim>\<open>and\<close>), then the four coordinate reads in the order
  of the source, then the formula.
\<close>

definition city_distance :: "City \<Rightarrow> City \<Rightarrow> py_error + real" where
  "city_distance from_c to_c =
     (case len_coordinates (coordinates to_c) of Inl e \<Rightarrow> Inl e
      | Inr lt \<Rightarrow>
        (case (if lt \<noteq> 2
               then (case len_coordinates (coordinates from_c) of
                       Inl e \<Rightarrow> Inl e | Inr lf \<Rightarrow> Inr (lf \<noteq> 2))
               else Inr False) of
           Inl e \<Rightarrow> Inl e
         | Inr True \<Rightarrow> Inl IndexError
         | Inr False \<Rightarrow>
           (case coordinate (coordinates from_c) 1 of Inl e \<Rightarrow> Inl e
            | Inr from1 \<Rightarrow>
              (case coordinate (coordinates from_c) 0 of Inl e \<Rightarrow> Inl e
               | Inr from0 \<Rightarrow>
                 (case coordinate (coordinates to_c) 1 of Inl e \<Rightarrow> Inl e
                  | Inr to1 \<Rightarrow>
                    (case coordinate (coordinates to_c) 0 of Inl e \<Rightarrow> Inl e
                     | Inr to0 \<Rightarrow> haversine from1 from0 to1 to0))))))"

text \<open>\<^verbatim>\<open>Connection.set_distance\<close>: the arguments default to the connection's own
  cities, and the result is stored in \<^verbatim>\<open>self.distance\<close>.\<close>

definition set_distance ::
  "Connection \<Rightarrow> City option \<Rightarrow> City option \<Rightarrow> py_error + Connection" where
  "set_distance self from_arg to_arg =
     (let from_c = (case from_arg of None \<Rightarrow> from_city self | Some c \<Rightarrow> c);
          to_c = (case to_arg of None \<Rightarrow> to_city self | Some c \<Rightarrow> c)
      in case city_distance from_c to_c of
           Inl e \<Rightarrow> Inl e
         | Inr d \<Rightarrow> Inr (self\<lparr>distance := d\<rparr>))"

subsection \<open>load_idos\<close>

text \<open>
  The search engine is a parameter: \<^verbatim>\<open>urlopen\<close> maps the request (vehicle type, origin
  name, destination name; the date is the constant default) to an exception or to a
  response with its status code and its parsed body.
\<close>

type_synonym url = "string \<times> string \<times> string"

record response =
  getcode :: int
  soup :: node

text \<open>The messages the code prints.\<close>

datatype diag = SameCity | GettingConnection | BadConnectionBox | BadHTML

text \<open>Lines 132 to 140: absent hours or minutes add nothing.\<close>

definition total_seconds_of :: "string \<Rightarrow> nat" where
  "total_seconds_of time =
     (let t0 = 0;
          hours = re_search_number ''hod'' time;
          minutes = re_search_number ''min'' time;
          t1 = (case hours of Some g \<Rightarrow> t0 + int_of_digits g * 60 * 60 | None \<Rightarrow> t0);
          t2 = (case minutes of Some g \<Rightarrow> t1 + int_of_digits g * 60 | None \<Rightarrow> t1)
      in t2)"

text \<open>
  The body of the inner \<^verbatim>\<open>try\<close>, lines 126 to 142, for one connection box. Every
  exception is raised before the first append, so the connection is unchanged when the
  result is \<open>Inl\<close>.
\<close>

definition parse_connection :: "Connection \<Rightarrow> node \<Rightarrow> py_error + Connection" where
  "parse_connection self connection =
     (case dots (Some connection) [''div'', ''div'', ''label'', ''p'', ''strong''] of
        Inl e \<Rightarrow> Inl e
      | Inr None \<Rightarrow> Inl AttributeError
      | Inr (Some s1) \<Rightarrow>
        (let time = getText s1
         in case dots (Some connection) [''div'', ''div'', ''label'', ''p''] of
              Inl e \<Rightarrow> Inl e
            | Inr None \<Rightarrow> Inl AttributeError
            | Inr (Some p) \<Rightarrow>
              (case py_index (find_all_name ''strong'' p) 1 of
                 Inl e \<Rightarrow> Inl e
               | Inr s2 \<Rightarrow>
                 (let distance_text = getText s2
                  in case re_search_number ''km'' distance_text of
                       None \<Rightarrow> Inl AttributeError
                     | Some g \<Rightarrow>
                       (let self1 = self\<lparr>connections_distances :=
                                     connections_distances self @ [int_of_digits g]\<rparr>;
                            total_seconds = total_seconds_of time
                        in Inr (self1\<lparr>connections_times :=
                                   connections_times self1 @ [total_seconds]\<rparr>))))))"

text \<open>The loop of line 119: IndexError skips the box with a message, every other
  exception leaves the loop.\<close>

fun load_loop ::
  "Connection \<Rightarrow> diag list \<Rightarrow> node list \<Rightarrow> py_error + (Connection \<times> diag list)" where
  "load_loop self lg [] = Inr (self, lg)"
| "load_loop self lg (b # bs) =
     (case parse_connection self b of
        Inr self' \<Rightarrow> load_loop self' lg bs
      | Inl e \<Rightarrow>
        (if e = IndexError then load_loop self (lg @ [BadConnectionBox]) bs
         else Inl e))"

text \<open>
  \<^verbatim>\<open>Connection.load_idos\<close>. The result is the printed messages and the returned value:
  None, or the connection itself after the updates.
\<close>

definition load_idos ::
  "Connection \<Rightarrow> (url \<Rightarrow> py_error + response) \<Rightarrow>
   py_error + (diag list \<times> Connection option)" where
  "load_idos self urlopen =
     (if name (from_city self) = name (to_city self) then Inr ([SameCity], None)
      else
        case set_distance self None None of
          Inl e \<Rightarrow> Inl e
        | Inr self1 \<Rightarrow>
          (let lg = [GettingConnection]
           in case urlopen (veh_type self1, name (from_city self1), name (to_city self1)) of
                Inl e \<Rightarrow> Inl e
              | Inr webURL \<Rightarrow>
                if 200 \<le> getcode webURL \<and> getcode webURL < 400 then
                  (let self2 = self1\<lparr>connections := find_all_id (soup webURL)\<rparr>
                   in if length (connections self2) = 0 then Inr (lg @ [BadHTML], None)
                      else
                        case load_loop self2 lg (connections self2) of
                          Inl e \<Rightarrow>
                            (if e = IOError \<or> e = IndexError
                             then Inr (lg @ [BadHTML], None) else Inl e)
                        | Inr (self3, lg3) \<Rightarrow>
                            if length (connections self3) = 0 \<or>
                               length (connections_times self3) = 0 \<or>
                               length (connections_distances self3) = 0
                            then Inr (lg3, None)
                            else Inr (lg3, Some self3))
                else Inl IOError))"

subsection \<open>Connections\<close>



subsection \<open>get_geojson\<close>

text \<open>Lines 304 to 307: the condition first, then the chosen branch.\<close>

definition score :: "Connection \<Rightarrow> bool \<Rightarrow> py_error + real" where
  "score connection ratio =
     (if ratio then
        (case mean (connections_times connection) of
           Inl e \<Rightarrow> Inl e
         | Inr m \<Rightarrow>
           if distance connection = 0 then Inl ZeroDivisionError
           else Inr (m / distance connection))
      else mean (connections_times connection))"

text \<open>\<^verbatim>\<open>x < min\<close> for a finite \<open>x\<close>.\<close>

fun less_pyfloat :: "real \<Rightarrow> pyfloat \<Rightarrow> bool" where
  "less_pyfloat x (Finite m) = (x < m)"
| "less_pyfloat x PosInf = True"
| "less_pyfloat x NegInf = False"
| "less_pyfloat x NaN = False"

text \<open>The first loop, lines 297 to 313: it stores the score in each connection of the
  window and returns them with the bounds.\<close>

fun first_loop ::
  "bool \<Rightarrow> real \<Rightarrow> pyfloat \<Rightarrow> Connection list \<Rightarrow>
   py_error + (Connection list \<times> real \<times> pyfloat)" where
  "first_loop ratio mx mn [] = Inr ([], mx, mn)"
| "first_loop ratio mx mn (c # cs) =
     (case score c ratio of
        Inl e \<Rightarrow> Inl e
      | Inr r \<Rightarrow>
        (let c' = c\<lparr>ratio_absolute := Some r\<rparr>;
             mx' = (if r > mx then r else mx);
             mn' = (if less_pyfloat r mn then Finite r else mn)
         in case first_loop ratio mx' mn' cs of
              Inl e \<Rightarrow> Inl e
            | Inr (cs', mx'', mn'') \<Rightarrow> Inr (c' # cs', mx'', mn'')))"

record Feature =
  marker_size :: string
  marker_color :: pyfloat
  feature_name :: string
  feature_times :: "nat list"
  feature_distances :: "nat list"
  mean_time :: real
  feature_distance :: real
  connections_details :: "node list"
  geometry :: coordinates_attr

definition clamp_limit :: "Connection list \<Rightarrow> int \<Rightarrow> int" where
  "clamp_limit self limit =
     (if limit > int (length self) then int (length self) else limit)"

definition medium_rank :: "int \<Rightarrow> int" where
  "medium_rank limit = ((limit - 1) * 2) div 3"

definition large_rank :: "int \<Rightarrow> int" where
  "large_rank limit = (limit - 1) div 3"

text \<open>Lines 328 to 334.\<close>

definition icon_size_of :: "Connection list \<Rightarrow> int \<Rightarrow> Connection \<Rightarrow> py_error + string" where
  "icon_size_of self limit connection =
     (case py_index (py_slice_to self limit) (medium_rank limit) of
        Inl e \<Rightarrow> Inl e
      | Inr m \<Rightarrow>
        (let icon_size =
               (if population (to_city connection) > population (to_city m)
                then ''medium'' else ''small'')
         in case py_index (py_slice_to self limit) (large_rank limit) of
              Inl e \<Rightarrow> Inl e
            | Inr l \<Rightarrow>
              Inr (if population (to_city connection) > population (to_city l)
                   then ''large'' else icon_size)))"

text \<open>
  Line 337. Division by zero raises; with an infinite \<^verbatim>\<open>min\<close> both differences are
  infinite and their quotient is nan.
\<close>

definition color_index_of :: "real \<Rightarrow> real \<Rightarrow> pyfloat \<Rightarrow> py_error + pyfloat" where
  "color_index_of r mx mn =
     (case mn of
        Finite m \<Rightarrow>
          if mx - m = 0 then Inl ZeroDivisionError
          else Inr (Finite ((r - m) / (mx - m)))
      | _ \<Rightarrow> Inr NaN)"

text \<open>Line 341: the hue \<^verbatim>\<open>0.3333 - 0.3333 * color_index\<close>. The feature keeps the hue;
  the conversion of the colour to a hex string is the \<^verbatim>\<open>colour\<close> library's.\<close>

fun hue_of :: "pyfloat \<Rightarrow> pyfloat" where
  "hue_of (Finite t) = Finite (0.3333 - 0.3333 * t)"
| "hue_of PosInf = NegInf"
| "hue_of NegInf = PosInf"
| "hue_of NaN = NaN"

text \<open>The body of the second loop after the clamp of \<^verbatim>\<open>limit\<close>, lines 326 to 364.\<close>

definition feature_of ::
  "Connection list \<Rightarrow> int \<Rightarrow> real \<Rightarrow> pyfloat \<Rightarrow> Connection \<Rightarrow> py_error + Feature" where
  "feature_of self limit mx mn connection =
     (case icon_size_of self limit connection of
        Inl e \<Rightarrow> Inl e
      | Inr icon_size \<Rightarrow>
        (case ratio_absolute connection of
           None \<Rightarrow> Inl AttributeError
         | Some r \<Rightarrow>
           (case color_index_of r mx mn of
              Inl e \<Rightarrow> Inl e
            | Inr color_index \<Rightarrow>
              (case mean (connections_times connection) of
                 Inl e \<Rightarrow> Inl e
               | Inr mt \<Rightarrow>
                 if coordinates (to_city connection) = Unset then Inl AttributeError
                 else
                   Inr \<lparr>marker_size = icon_size,
                        marker_color = hue_of color_index,
                        feature_name = name (to_city connection),
                        feature_times = connections_times connection,
                        feature_distances = connections_distances connection,
                        mean_time = mt,
                        feature_distance = distance connection,
                        connections_details = connections connection,
                        geometry = coordinates (to_city connection)\<rparr>))))"

fun second_loop ::
  "Connection list \<Rightarrow> int \<Rightarrow> real \<Rightarrow> pyfloat \<Rightarrow> Connection list \<Rightarrow>
   py_error + Feature list" where
  "second_loop self limit mx mn [] = Inr []"
| "second_loop self limit mx mn (c # cs) =
     (let limit' = clamp_limit self limit
      in case feature_of self limit' mx mn c of
           Inl e \<Rightarrow> Inl e
         | Inr f \<Rightarrow>
           (case second_loop self limit' mx mn cs of
              Inl e \<Rightarrow> Inl e
            | Inr fs \<Rightarrow> Inr (f # fs)))"

text \<open>
  \<^verbatim>\<open>Connections.get_geojson\<close> on \<^verbatim>\<open>self.connections\<close>; the result is the list under
  \<^verbatim>\<open>"features"\<close>. The first loop updates the connections of the window in place.
\<close>

definition get_geojson ::
  "Connection list \<Rightarrow> int \<Rightarrow> bool \<Rightarrow> py_error + Feature list" where
  "get_geojson self limit ratio =
     (case first_loop ratio 0 PosInf (py_slice_to self limit) of
        Inl e \<Rightarrow> Inl e
      | Inr (window, mx, mn) \<Rightarrow>
        (let self' = window @ drop (length window) self
         in second_loop self' limit mx mn (py_slice_to self' limit)))"

section \<open>Example data\<close>

text \<open>Cities with their coordinates as longitude and latitude.\<close>

definition praha :: City where
  "praha = \<lparr>name = ''Praha'', district = ''Praha'', population = 1300000,
            coordinates = IsList [14.42, 50.09]\<rparr>"

definition brno :: City where
  "brno = \<lparr>name = ''Brno'', district = ''Brno-mesto'', population = 380000,
           coordinates = IsList [16.61, 49.19]\<rparr>"

definition plzen :: City where
  "plzen = \<lparr>name = ''Plzen'', district = ''Plzen-mesto'', population = 170000,
            coordinates = IsList [13.38, 49.75]\<rparr>"


definition kolin :: City where
  "kolin = \<lparr>name = ''Kolin'', district = ''Kolin'', population = 32000,
            coordinates = IsList [15.20, 50.03]\<rparr>"


text \<open>The value of the haversine formula where both square roots are defined.\<close>

definition great_circle_km :: "real \<Rightarrow> real \<Rightarrow> real \<Rightarrow> real \<Rightarrow> real" where
  "great_circle_km from1 from0 to1 to0 =
     6373 * (2 * atan2
       (sqrt ((sin ((radians to1 - radians from1) / 2))\<^sup>2 +
              cos (radians from1) * cos (radians to1) *
              (sin ((radians to0 - radians from0) / 2))\<^sup>2))
       (sqrt (1 - ((sin ((radians to1 - radians from1) / 2))\<^sup>2 +
              cos (radians from1) * cos (radians to1) *
              (sin ((radians to0 - radians from0) / 2))\<^sup>2))))"

definition praha_brno_km :: real where
  "praha_brno_km = great_circle_km 50.09 14.42 49.19 16.61"




text \<open>Result documents: a connection box with the nesting that \<^verbatim>\<open>load_idos\<close> reads
  and one \<^verbatim>\<open>strong\<close> element for each text, and pages of such boxes.\<close>

definition connection_box :: "string \<Rightarrow> string list \<Rightarrow> node" where
  "connection_box i texts =
     Tag ''div'' (Some i)
       [Tag ''div'' None
          [Tag ''div'' None
             [Tag ''label'' None
                [Tag ''p'' None (map (\<lambda>t. Tag ''strong'' None [NavigableString t]) texts)]]]]"

definition page :: "node list \<Rightarrow> node" where
  "page boxes = Tag ''[document]'' None [Tag ''html'' None [Tag ''body'' None boxes]]"

definition three_boxes :: node where
  "three_boxes = page
     [connection_box ''connectionBox-1'' [''1 hod 30 min'', ''100 km''],
      connection_box ''connectionBox-2'' [''45 min''],
      connection_box ''connectionBox-3'' [''2 hod'', ''95 km'']]"

definition unparseable_distance :: node where
  "unparseable_distance = page
     [connection_box ''connectionBox-1'' [''1 hod 30 min'', ''100 km''],
      connection_box ''connectionBox-2'' [''45 min'', ''n/a'']]"

definition no_duration_components :: node where
  "no_duration_components = page [connection_box ''connectionBox-1'' [''abc'', ''12 km'']]"

text \<open>Search engines: one that answers every request with the same document, and one
  with a document for each destination.\<close>

definition idos :: "node \<Rightarrow> url \<Rightarrow> py_error + response" where
  "idos doc u = Inr \<lparr>getcode = 200, soup = doc\<rparr>"





definition loaded :: "City \<Rightarrow> nat list \<Rightarrow> nat list \<Rightarrow> real \<Rightarrow> Connection" where
  "loaded city ts ds d =
     (Connection_init praha city ''vlaky'')
       \<lparr>connections_times := ts, connections_distances := ds, distance := d\<rparr>"

definition three_connections :: "Connection list" where
  "three_connections =
     [loaded brno [9000, 9600] [255, 255] 186,
      loaded plzen [5400] [114] 85,
      loaded kolin [2400, 3000] [62, 62] 55]"

definition three_features :: "Feature list" where
  "three_features =
     [\<lparr>marker_size = ''medium'', marker_color = Finite 0, feature_name = ''Brno'',
       feature_times = [9000, 9600], feature_distances = [255, 255], mean_time = 9300,
       feature_distance = 186, connections_details = [],
       geometry = IsList [16.61, 49.19]\<rparr>,
      \<lparr>marker_size = ''small'', marker_color = Finite (0.3333 * (13 / 22)),
       feature_name = ''Plzen'',
       feature_times = [5400], feature_distances = [114], mean_time = 5400,
       feature_distance = 85, connections_details = [],
       geometry = IsList [13.38, 49.75]\<rparr>,
      \<lparr>marker_size = ''small'', marker_color = Finite 0.3333, feature_name = ''Kolin'',
       feature_times = [2400, 3000], feature_distances = [62, 62], mean_time = 2700,
       feature_distance = 55, connections_details = [],
       geometry = IsList [15.20, 50.03]\<rparr>]"

definition equal_connections :: "Connection list" where
  "equal_connections = [loaded brno [5400] [255] 186, loaded plzen [5400] [114] 85]"

definition single_connection :: "Connection list" where
  "single_connection = [loaded brno [9000, 9600] [255, 255] 186]"

section \<open>Lists, slices and bounds\<close>

lemma take_length_take: "take (length (take n xs)) xs = take n xs"
  by (simp add: min_def)

lemma py_slice_to_length:
  "length (py_slice_to xs limit) \<le> length xs"
  by (auto simp: py_slice_to_def)

lemma py_slice_to_replace:
  assumes "length w = length (py_slice_to xs limit)"
  shows "py_slice_to (w @ drop (length w) xs) limit = w"
  using assms by (auto simp: py_slice_to_def min_def split: if_splits)

lemma py_slice_to_map: "py_slice_to (map f xs) limit = map f (py_slice_to xs limit)"
  by (simp add: py_slice_to_def take_map)

lemma py_slice_to_take:
  "0 \<le> limit \<Longrightarrow> py_slice_to xs limit = take (nat (clamp_limit xs limit)) xs"
  by (simp add: py_slice_to_def clamp_limit_def)

lemma py_index_map:
  "py_index (map f xs) i = (case py_index xs i of Inl e \<Rightarrow> Inl e | Inr x \<Rightarrow> Inr (f x))"
proof -
  have "0 \<le> i \<Longrightarrow> i < int (length xs) \<Longrightarrow> nat i < length xs" by arith
  moreover have "i < 0 \<Longrightarrow> - int (length xs) \<le> i \<Longrightarrow> nat (int (length xs) + i) < length xs"
    by arith
  ultimately show ?thesis by (auto simp: py_index_def)
qed

lemma case_py_index_map:
  "(case py_index xs k of Inl e \<Rightarrow> Inl e | Inr m \<Rightarrow> G (f m))
   = (case py_index (map f xs) k of Inl e \<Rightarrow> Inl e | Inr t \<Rightarrow> G t)"
  by (simp add: py_index_map split: sum.splits)

lemma Max_insert_max:
  "finite S \<Longrightarrow> Max (insert (max a b) S) = Max (insert a (insert b S))"
  by (cases "S = {}") (simp_all add: max.assoc)

lemma Min_insert_min:
  "finite S \<Longrightarrow> Min (insert (min a b) S) = Min (insert a (insert b S))"
  by (cases "S = {}") (simp_all add: min.assoc)

lemma Max_insert_0:
  assumes "i < length scores" and "\<forall>j<length scores. (0::real) \<le> scores ! j"
  shows "Max (insert 0 (set scores)) = Max (set scores)"
proof -
  have ne: "set scores \<noteq> {}" using assms(1) by auto
  have "0 \<le> scores ! i" using assms by simp
  moreover have "scores ! i \<le> Max (set scores)" using assms(1) by simp
  ultimately have "0 \<le> Max (set scores)" by linarith
  then show ?thesis using ne by (simp add: max_def)
qed

section \<open>The distance between two cities\<close>



lemma hav_arg:
  fixes x y z :: real
  defines "a \<equiv> (sin ((y - x) / 2))\<^sup>2 + cos x * cos y * (sin (z / 2))\<^sup>2"
  shows "0 \<le> a" and "a \<le> 1"
proof -
  have h: "(sin (t / 2))\<^sup>2 = (1 - cos t) / 2" for t :: real
    using cos_double_sin [of "t / 2"] by simp
  have c1: "cos (y - x) = cos y * cos x + sin y * sin x" by (rule cos_diff)
  have c2: "cos (y + x) = cos y * cos x - sin y * sin x" by (rule cos_add)
  have a_eq: "a = (1 + cos z) / 2 * ((1 - cos (y - x)) / 2) + (1 - cos z) / 2 * ((1 + cos (y + x)) / 2)"
    unfolding a_def h c1 c2 by (simp add: field_simps)
  have cz: "- 1 \<le> cos z" "cos z \<le> 1" by (rule cos_ge_minus_one, rule cos_le_one)
  have cm: "- 1 \<le> cos (y - x)" "cos (y - x) \<le> 1" by (rule cos_ge_minus_one, rule cos_le_one)
  have cp: "- 1 \<le> cos (y + x)" "cos (y + x) \<le> 1" by (rule cos_ge_minus_one, rule cos_le_one)
  have b1: "0 \<le> (1 + cos z) / 2" using cz by argo
  have b1': "0 \<le> (1 - cos z) / 2" using cz by argo
  have b2: "0 \<le> (1 - cos (y - x)) / 2" using cm by argo
  have b2': "(1 - cos (y - x)) / 2 \<le> 1" using cm by argo
  have b3: "0 \<le> (1 + cos (y + x)) / 2" using cp by argo
  have b3': "(1 + cos (y + x)) / 2 \<le> 1" using cp by argo
  show "0 \<le> a" unfolding a_eq
    by (intro add_nonneg_nonneg mult_nonneg_nonneg b1 b1' b2 b3)
  have "a \<le> (1 + cos z) / 2 * 1 + (1 - cos z) / 2 * 1"
    unfolding a_eq by (intro add_mono mult_left_mono b1 b1' b2' b3')
  then show "a \<le> 1" by argo
qed

lemma atan2_nonneg: "0 \<le> y \<Longrightarrow> 0 \<le> x \<Longrightarrow> 0 \<le> atan2 y x"
  by (auto simp: atan2_def not_le intro!: divide_nonneg_pos)

lemma haversine_total: "\<exists>d. haversine a1 a0 b1 b0 = Inr d \<and> 0 \<le> d"
proof -
  define a where "a = (sin ((radians b1 - radians a1) / 2))\<^sup>2 +
    cos (radians a1) * cos (radians b1) * (sin ((radians b0 - radians a0) / 2))\<^sup>2"
  have a0: "0 \<le> a" and a1: "a \<le> 1"
    unfolding a_def using hav_arg [of "radians b1" "radians a1" "radians b0 - radians a0"]
    by simp_all
  have eq: "haversine a1 a0 b1 b0 = Inr (6373 * (2 * atan2 (sqrt a) (sqrt (1 - a))))"
    using a0 a1 by (simp add: haversine_def math_sqrt_def a_def [symmetric] Let_def)
  have "0 \<le> atan2 (sqrt a) (sqrt (1 - a))"
    using a0 a1 by (intro atan2_nonneg) simp_all
  then show ?thesis using eq by simp
qed

lemma haversine_eq: "haversine a1 a0 b1 b0 = Inr (great_circle_km a1 a0 b1 b0)"
  using hav_arg [of "radians b1" "radians a1" "radians b0 - radians a0"]
  by (simp add: haversine_def math_sqrt_def Let_def great_circle_km_def)

lemma city_distance_pairs:
  "coordinates A = IsList [a0, a1] \<Longrightarrow> coordinates B = IsList [b0, b1] \<Longrightarrow>
   city_distance A B = haversine a1 a0 b1 b0"
  by (simp add: city_distance_def py_index_def)


lemma city_distance_praha_brno: "city_distance praha brno = Inr praha_brno_km"
proof -
  have "city_distance praha brno = haversine 50.09 14.42 49.19 16.61"
    by (rule city_distance_pairs) (simp_all add: praha_def brno_def)
  then show ?thesis unfolding praha_brno_km_def by (simp only: haversine_eq)
qed





lemma praha_brno_names: "name praha \<noteq> name brno"
  by (simp add: praha_def brno_def)



lemma py_index_0: "py_index xs 0 = (if xs = [] then Inl IndexError else Inr (xs ! 0))"
  by (auto simp: py_index_def)

lemma py_index_1: "py_index xs 1 = (if length xs < 2 then Inl IndexError else Inr (xs ! 1))"
  by (auto simp: py_index_def)

text \<open>
  What the guard and the four reads let through: for two lists, a distance is computed
  exactly when both have at least two elements and one of them has exactly two.
\<close>

lemma city_distance_lists:
  assumes "coordinates A = IsList xs" and "coordinates B = IsList ys"
  shows "(\<exists>d. city_distance A B = Inr d)
     = (2 \<le> length xs \<and> 2 \<le> length ys \<and> (length xs = 2 \<or> length ys = 2))"
proof -
  have h: "\<exists>d. haversine a b c e = Inr d" for a b c e
    using haversine_total [of a b c e] by blast
  show ?thesis
    unfolding city_distance_def assms
    using h by (auto simp: py_index_0 py_index_1 split: if_splits bool.splits sum.splits)
qed

lemma city_distance_absent:
  assumes "coordinates A = Unset \<or> coordinates A = IsNone
         \<or> coordinates B = Unset \<or> coordinates B = IsNone"
  shows "\<exists>e. city_distance A B = Inl e"
  using assms
  by (cases "coordinates A"; cases "coordinates B")
    (auto simp: city_distance_def split: if_splits bool.splits sum.splits)

text \<open>
  Claim C3. The guard of line 174 joins its two tests with \<^verbatim>\<open>and\<close>, so it raises only
  when both cities lack a pair. With a pair for the origin and three coordinates for the
  destination, \<^verbatim>\<open>set_distance\<close> raises nothing and stores a distance.
\<close>

theorem set_distance_three_coordinates:
  "\<exists>d. set_distance
          (Connection_init praha (brno\<lparr>coordinates := IsList [16.61, 49.19, 237]\<rparr>) ''vlaky'')
          None None
        = Inr ((Connection_init praha (brno\<lparr>coordinates := IsList [16.61, 49.19, 237]\<rparr>)
                 ''vlaky'')\<lparr>distance := d\<rparr>)"
proof -
  obtain d where "haversine 50.09 14.42 49.19 16.61 = Inr d"
    using haversine_total by blast
  then show ?thesis
    by (simp add: set_distance_def Connection_init_def city_distance_def py_index_def
        praha_def brno_def)
qed

section \<open>Extraction of the trips\<close>

lemma parse_connection_box:
  "parse_connection self (connection_box i [t, d]) =
     (case re_search_number ''km'' d of
        None \<Rightarrow> Inl AttributeError
      | Some g \<Rightarrow>
        Inr (self\<lparr>connections_distances := connections_distances self @ [int_of_digits g],
                  connections_times := connections_times self @ [total_seconds_of t]\<rparr>))"
  by (simp add: parse_connection_def connection_box_def find_all_name_def py_index_def
      split: option.splits)

lemma parse_connection_box1:
  "parse_connection self (connection_box i [t]) = Inl IndexError"
  by (simp add: parse_connection_def connection_box_def find_all_name_def py_index_def)

lemma connection_box_dots:
  "dots (Some (connection_box i [t, d])) [''div'', ''div'', ''label'', ''p'', ''strong'']
     = Inr (Some (Tag ''strong'' None [NavigableString t]))"
  "dots (Some (connection_box i [t, d])) [''div'', ''div'', ''label'', ''p'']
     = Inr (Some (Tag ''p'' None [Tag ''strong'' None [NavigableString t],
                                   Tag ''strong'' None [NavigableString d]]))"
  by (simp_all add: connection_box_def find_all_name_def)

lemma parse_connection_Inr:
  assumes "parse_connection self b = Inr self'"
  shows "\<exists>t d. self' = self\<lparr>connections_distances := connections_distances self @ [d],
                            connections_times := connections_times self @ [t]\<rparr>"
  using assms
  by (auto simp: parse_connection_def Let_def split: sum.splits option.splits)


lemma load_loop_result:
  "load_loop self lg bs = Inr (self', lg') \<Longrightarrow>
   \<exists>recs skips.
     self' = self\<lparr>connections_distances := connections_distances self @ map snd recs,
                  connections_times := connections_times self @ map fst recs\<rparr>
     \<and> lg' = lg @ replicate skips BadConnectionBox
     \<and> length recs + skips = length bs"
proof (induction bs arbitrary: self lg)
  case Nil
  then show ?case by (intro exI [of _ "[]"] exI [of _ 0]) simp
next
  case (Cons b bs)
  show ?case
  proof (cases "parse_connection self b")
    case (Inl e)
    with Cons.prems have e: "e = IndexError"
      and rest: "load_loop self (lg @ [BadConnectionBox]) bs = Inr (self', lg')"
      by (auto split: if_splits)
    from Cons.IH [OF rest] obtain recs skips where
      r: "self' = self\<lparr>connections_distances := connections_distances self @ map snd recs,
                  connections_times := connections_times self @ map fst recs\<rparr>"
        "lg' = (lg @ [BadConnectionBox]) @ replicate skips BadConnectionBox"
        "length recs + skips = length bs" by blast
    show ?thesis
      using r by (intro exI [of _ recs] exI [of _ "Suc skips"]) (simp add: replicate_app_Cons_same)
  next
    case (Inr s1)
    with Cons.prems have rest: "load_loop s1 lg bs = Inr (self', lg')" by simp
    from parse_connection_Inr [OF Inr] obtain t d where
      s1: "s1 = self\<lparr>connections_distances := connections_distances self @ [d],
                            connections_times := connections_times self @ [t]\<rparr>" by blast
    from Cons.IH [OF rest] obtain recs skips where
      r: "self' = s1\<lparr>connections_distances := connections_distances s1 @ map snd recs,
                  connections_times := connections_times s1 @ map fst recs\<rparr>"
        "lg' = lg @ replicate skips BadConnectionBox"
        "length recs + skips = length bs" by blast
    show ?thesis
      using r s1 by (intro exI [of _ "(t, d) # recs"] exI [of _ skips]) simp
  qed
qed


lemma load_idos_Some:
  assumes "load_idos self urlopen = Inr (lg, Some self')"
  shows "name (from_city self) \<noteq> name (to_city self) \<and>
    (\<exists>d r. city_distance (from_city self) (to_city self) = Inr d
       \<and> urlopen (veh_type self, name (from_city self), name (to_city self)) = Inr r
       \<and> 200 \<le> getcode r \<and> getcode r < 400
       \<and> find_all_id (soup r) \<noteq> []
       \<and> load_loop (self\<lparr>distance := d, connections := find_all_id (soup r)\<rparr>)
            [GettingConnection] (find_all_id (soup r)) = Inr (self', lg)
       \<and> connections_times self' \<noteq> [] \<and> connections_distances self' \<noteq> [])"
  using assms
  by (auto simp: load_idos_def set_distance_def Let_def
      split: if_splits sum.splits prod.splits)




lemma find_all_id_three_boxes:
  "find_all_id three_boxes =
     [connection_box ''connectionBox-1'' [''1 hod 30 min'', ''100 km''],
      connection_box ''connectionBox-2'' [''45 min''],
      connection_box ''connectionBox-3'' [''2 hod'', ''95 km'']]"
  by code_simp

lemma find_all_id_unparseable_distance:
  "find_all_id unparseable_distance =
     [connection_box ''connectionBox-1'' [''1 hod 30 min'', ''100 km''],
      connection_box ''connectionBox-2'' [''45 min'', ''n/a'']]"
  by code_simp

lemma find_all_id_no_duration_components:
  "find_all_id no_duration_components = [connection_box ''connectionBox-1'' [''abc'', ''12 km'']]"
  by code_simp


lemma example_texts:
  "re_search_number ''km'' ''100 km'' = Some ''100''"
  "re_search_number ''km'' ''95 km'' = Some ''95''"
  "re_search_number ''km'' ''12 km'' = Some ''12''"
  "re_search_number ''km'' ''114 km'' = Some ''114''"
  "int_of_digits ''114'' = 114"
  "re_search_number ''km'' ''n/a'' = None"
  "re_search_number ''hod'' ''abc'' = None"
  "re_search_number ''min'' ''abc'' = None"
  "int_of_digits ''100'' = 100"
  "int_of_digits ''95'' = 95"
  "int_of_digits ''12'' = 12"
  "total_seconds_of ''1 hod 30 min'' = 5400"
  "total_seconds_of ''2 hod'' = 7200"
  "total_seconds_of ''abc'' = 0"
  by code_simp+

lemma load_idos_three_boxes:
  "load_idos (Connection_init praha brno ''vlaky'') (idos three_boxes) =
     Inr ([GettingConnection, BadConnectionBox],
          Some ((Connection_init praha brno ''vlaky'')
            \<lparr>connections := find_all_id three_boxes,
             connections_times := [5400, 7200], connections_distances := [100, 95],
             distance := praha_brno_km\<rparr>))"
  using praha_brno_names
  by (simp add: load_idos_def set_distance_def city_distance_praha_brno Connection_init_def
      idos_def Let_def)
    (simp add: find_all_id_three_boxes parse_connection_box parse_connection_box1
      example_texts del: re_search_number.simps)

text \<open>
  Claim C10. When \<^verbatim>\<open>load_idos\<close> returns the connection, and the two lists had the same
  length before (both are empty after \<^verbatim>\<open>__init__\<close>), the durations and the distances
  have the same length afterwards and are aligned: the pairs of the two lists are the
  pairs before followed by one pair for each accepted box. Every box either added one
  entry to both lists or was skipped with one message, so the accepted boxes and the
  messages together count the boxes.
\<close>

theorem load_idos_lists_aligned:
  assumes "load_idos self urlopen = Inr (lg, Some self')"
    and "length (connections_times self) = length (connections_distances self)"
  shows "length (connections_times self') = length (connections_distances self')
    \<and> (\<exists>recs. zip (connections_times self') (connections_distances self')
                 = zip (connections_times self) (connections_distances self) @ recs
          \<and> length recs + count_list lg BadConnectionBox = length (connections self'))"
proof -
  from load_idos_Some [OF assms(1)] obtain d and r :: response where
    loop: "load_loop (self\<lparr>distance := d, connections := find_all_id (soup r)\<rparr>)
            [GettingConnection] (find_all_id (soup r)) = Inr (self', lg)"
    by blast
  from load_loop_result [OF loop] obtain recs skips where
    s: "self' = self\<lparr>distance := d, connections := find_all_id (soup r),
          connections_distances := connections_distances self @ map snd recs,
          connections_times := connections_times self @ map fst recs\<rparr>"
    and l: "lg = [GettingConnection] @ replicate skips BadConnectionBox"
    and n: "length recs + skips = length (find_all_id (soup r))"
    by auto
  have c: "count_list lg BadConnectionBox = skips"
    unfolding l by (induction skips) simp_all
  have z: "zip (map fst recs) (map snd recs) = recs"
    by (simp add: zip_map_fst_snd)
  show ?thesis
    using assms(2) n c z by (intro conjI exI [of _ recs]) (simp_all add: s)
qed

text \<open>
  The theorem at a document of three boxes whose second box has no distance element.
\<close>

theorem load_idos_lists_aligned_witness:
  "load_idos (Connection_init praha brno ''vlaky'') (idos three_boxes) =
     Inr ([GettingConnection, BadConnectionBox],
          Some ((Connection_init praha brno ''vlaky'')
            \<lparr>connections := find_all_id three_boxes,
             connections_times := [5400, 7200], connections_distances := [100, 95],
             distance := praha_brno_km\<rparr>))
   \<and> length (connections_times (Connection_init praha brno ''vlaky''))
       = length (connections_distances (Connection_init praha brno ''vlaky''))
   \<and> length [5400, 7200 :: nat] = length [100, 95 :: nat]
   \<and> (\<exists>recs. zip [5400, 7200 :: nat] [100, 95 :: nat] = recs
          \<and> length recs + 1 = length (find_all_id three_boxes))"
proof -
  have fresh: "connections_times (Connection_init praha brno ''vlaky'') = []"
    "connections_distances (Connection_init praha brno ''vlaky'') = []"
    by (simp_all add: Connection_init_def)
  show ?thesis
    using load_idos_lists_aligned [OF load_idos_three_boxes]
    by (simp add: load_idos_three_boxes fresh)
qed

text \<open>
  Claim C4. The inner handler catches IndexError only. A box whose distance text does not
  contain \<^verbatim>\<open><digits> km\<close> makes \<^verbatim>\<open>re.search\<close> return None, and \<^verbatim>\<open>.group(1)\<close> on
  None raises AttributeError, which neither handler catches: for a document of two boxes,
  the second with the distance text \<^verbatim>\<open>n/a\<close>, \<^verbatim>\<open>load_idos\<close> raises AttributeError
  instead of returning one trip.
\<close>

theorem load_idos_unparseable_distance:
  "load_idos (Connection_init praha brno ''vlaky'') (idos unparseable_distance)
     = Inl AttributeError"
  using praha_brno_names
  by (simp add: load_idos_def set_distance_def city_distance_praha_brno Connection_init_def
      idos_def Let_def)
    (simp add: find_all_id_unparseable_distance parse_connection_box
      example_texts del: re_search_number.simps)

text \<open>
  Claim C5, as stated, fails: a duration text with neither hours nor minutes is no
  failure. For a document whose only box has the duration text \<^verbatim>\<open>abc\<close> and the
  distance \<^verbatim>\<open>12 km\<close>, \<^verbatim>\<open>load_idos\<close> returns the connection with one trip of 0 seconds.
\<close>

theorem load_idos_no_duration_components:
  "load_idos (Connection_init praha brno ''vlaky'') (idos no_duration_components)
     = Inr ([GettingConnection],
         Some ((Connection_init praha brno ''vlaky'')
           \<lparr>connections := find_all_id no_duration_components,
            connections_times := [0], connections_distances := [12],
            distance := praha_brno_km\<rparr>))"
  using praha_brno_names
  by (simp add: load_idos_def set_distance_def city_distance_praha_brno Connection_init_def
      idos_def Let_def)
    (simp add: find_all_id_no_duration_components parse_connection_box
      example_texts del: re_search_number.simps)

text \<open>
  Claim C5, amended. For a box with the expected nesting and a distance text that
  matches, a duration text in which neither \<^verbatim>\<open><digits> hod\<close> nor \<^verbatim>\<open><digits> min\<close>
  is found adds the distance and a duration of 0 seconds, and the loop goes on with the
  next box.
\<close>

theorem duration_without_components:
  assumes "dots (Some b) [''div'', ''div'', ''label'', ''p'', ''strong''] = Inr (Some s1)"
    and "dots (Some b) [''div'', ''div'', ''label'', ''p''] = Inr (Some p)"
    and "py_index (find_all_name ''strong'' p) 1 = Inr s2"
    and "re_search_number ''km'' (getText s2) = Some g"
    and "re_search_number ''hod'' (getText s1) = None"
    and "re_search_number ''min'' (getText s1) = None"
  shows "parse_connection self b =
           Inr (self\<lparr>connections_distances := connections_distances self @ [int_of_digits g],
                     connections_times := connections_times self @ [0]\<rparr>)
       \<and> load_loop self lg (b # bs) =
           load_loop (self\<lparr>connections_distances := connections_distances self @ [int_of_digits g],
                           connections_times := connections_times self @ [0]\<rparr>) lg bs"
proof -
  have t: "total_seconds_of (getText s1) = 0"
    using assms(5,6) by (simp add: total_seconds_of_def)
  have p: "parse_connection self b =
           Inr (self\<lparr>connections_distances := connections_distances self @ [int_of_digits g],
                     connections_times := connections_times self @ [0]\<rparr>)"
    unfolding parse_connection_def using assms(1-4) t by (simp add: Let_def)
  show ?thesis using p by simp
qed

text \<open>
  The theorem at the box with the texts \<^verbatim>\<open>abc\<close> and \<^verbatim>\<open>12 km\<close>.
\<close>

theorem duration_without_components_witness:
  "parse_connection (Connection_init praha brno ''vlaky'')
     (connection_box ''connectionBox-1'' [''abc'', ''12 km''])
   = Inr ((Connection_init praha brno ''vlaky'')
            \<lparr>connections_distances := [12], connections_times := [0]\<rparr>)
   \<and> load_loop (Connection_init praha brno ''vlaky'') []
       [connection_box ''connectionBox-1'' [''abc'', ''12 km'']]
     = Inr ((Connection_init praha brno ''vlaky'')
            \<lparr>connections_distances := [12], connections_times := [0]\<rparr>, [])"
proof -
  have fresh: "connections_times (Connection_init praha brno ''vlaky'') = []"
    "connections_distances (Connection_init praha brno ''vlaky'') = []"
    by (simp_all add: Connection_init_def)
  have i: "py_index (find_all_name ''strong''
        (Tag ''p'' None [Tag ''strong'' None [NavigableString ''abc''],
                         Tag ''strong'' None [NavigableString ''12 km'']])) 1
      = Inr (Tag ''strong'' None [NavigableString ''12 km''])"
    by (simp add: find_all_name_def py_index_def)
  have k: "re_search_number ''km'' (getText (Tag ''strong'' None [NavigableString ''12 km'']))
      = Some ''12''"
    by (simp add: example_texts del: re_search_number.simps)
  have h: "re_search_number ''hod'' (getText (Tag ''strong'' None [NavigableString ''abc''])) = None"
    by (simp add: example_texts del: re_search_number.simps)
  have m: "re_search_number ''min'' (getText (Tag ''strong'' None [NavigableString ''abc''])) = None"
    by (simp add: example_texts del: re_search_number.simps)
  show ?thesis
    using duration_without_components [OF
        connection_box_dots(1) [of "''connectionBox-1''" "''abc''" "''12 km''"]
        connection_box_dots(2) [of "''connectionBox-1''" "''abc''" "''12 km''"] i k h m,
        where self = "Connection_init praha brno ''vlaky''" and lg = "[]" and bs = "[]"]
    by (simp add: fresh example_texts)
qed

section \<open>The accessibility score\<close>

text \<open>
  Claim C1. For a connection with at least one trip, the score in absolute mode is the
  arithmetic mean of the durations; in ratio mode it is that mean divided by the
  distance (the division needs a distance other than 0). For the durations 3600 and 1800
  the scores are 2700, and 54 at distance 50.
\<close>

theorem score_is_mean:
  assumes "connections_times c \<noteq> []"
  shows "score c False
           = Inr (real (sum_list (connections_times c)) / real (length (connections_times c)))
       \<and> (distance c \<noteq> 0 \<longrightarrow>
            score c True
              = Inr (real (sum_list (connections_times c)) / real (length (connections_times c))
                     / distance c))
       \<and> (connections_times c = [3600, 1800] \<longrightarrow> score c False = Inr 2700)
       \<and> (connections_times c = [3600, 1800] \<and> distance c = 50 \<longrightarrow> score c True = Inr 54)"
  using assms by (simp add: score_def mean_def)

text \<open>
  The theorem at the durations 3600 and 1800 and the distance 50.
\<close>

theorem score_is_mean_witness:
  "connections_times ((Connection_init praha brno ''vlaky'')
       \<lparr>connections_times := [3600, 1800], connections_distances := [100, 100],
        distance := 50\<rparr>) \<noteq> []
   \<and> score ((Connection_init praha brno ''vlaky'')
       \<lparr>connections_times := [3600, 1800], connections_distances := [100, 100],
        distance := 50\<rparr>) False = Inr 2700
   \<and> score ((Connection_init praha brno ''vlaky'')
       \<lparr>connections_times := [3600, 1800], connections_distances := [100, 100],
        distance := 50\<rparr>) True = Inr 54"
  using score_is_mean [of "(Connection_init praha brno ''vlaky'')
       \<lparr>connections_times := [3600, 1800], connections_distances := [100, 100],
        distance := 50\<rparr>"]
  by (simp add: Connection_init_def)

section \<open>Normalization and encoding\<close>

lemma score_nonneg:
  assumes "score c ratio = Inr r" and "0 \<le> distance c"
  shows "0 \<le> r"
  using assms
  by (auto simp: score_def mean_def split: if_splits)

lemma scores_nonneg:
  assumes "map (\<lambda>c. score c ratio) cs = map Inr scores"
    and "\<forall>c\<in>set cs. 0 \<le> distance c"
    and "i < length scores"
  shows "0 \<le> scores ! i"
proof -
  have l: "length cs = length scores" using assms(1) by (metis length_map)
  have "score (cs ! i) ratio = Inr (scores ! i)"
    using assms(1,3) l by (metis nth_map)
  moreover have "0 \<le> distance (cs ! i)" using assms(2,3) l by simp
  ultimately show ?thesis by (rule score_nonneg)
qed

lemma first_loop_Inr:
  assumes "first_loop ratio mx mn cs = Inr (cs', mx', mn')"
    and "mn = PosInf \<or> (\<exists>m. mn = Finite m)"
  shows "\<exists>scores.
      map (\<lambda>c. score c ratio) cs = map Inr scores
    \<and> cs' = map (\<lambda>(c, r). c\<lparr>ratio_absolute := Some r\<rparr>) (zip cs scores)
    \<and> mx' = Max (insert mx (set scores))
    \<and> mn' = (case mn of
               Finite m \<Rightarrow> Finite (Min (insert m (set scores)))
             | _ \<Rightarrow> if scores = [] then PosInf else Finite (Min (set scores)))"
  using assms
proof (induction cs arbitrary: mx mn cs')
  case Nil
  then show ?case by (intro exI [of _ "[]"]) auto
next
  case (Cons c cs)
  from Cons.prems(1) obtain r cs'' where
    r: "score c ratio = Inr r"
    and rest: "first_loop ratio (if r > mx then r else mx)
        (if less_pyfloat r mn then Finite r else mn) cs = Inr (cs'', mx', mn')"
    and cs': "cs' = c\<lparr>ratio_absolute := Some r\<rparr> # cs''"
    by (auto simp: Let_def split: sum.splits prod.splits)
  let ?mn1 = "if less_pyfloat r mn then Finite r else mn"
  have mn1: "?mn1 = PosInf \<or> (\<exists>m. ?mn1 = Finite m)"
    using Cons.prems(2) by auto
  from Cons.IH [OF rest mn1] obtain scores where
    s: "map (\<lambda>c. score c ratio) cs = map Inr scores"
    and c: "cs'' = map (\<lambda>(c, r). c\<lparr>ratio_absolute := Some r\<rparr>) (zip cs scores)"
    and x: "mx' = Max (insert (if r > mx then r else mx) (set scores))"
    and n: "mn' = (case ?mn1 of
               Finite m \<Rightarrow> Finite (Min (insert m (set scores)))
             | _ \<Rightarrow> if scores = [] then PosInf else Finite (Min (set scores)))"
    by blast
  have x': "mx' = Max (insert mx (set (r # scores)))"
  proof -
    have "(if r > mx then r else mx) = max mx r" by (simp add: max_def)
    then show ?thesis unfolding x by (simp add: Max_insert_max)
  qed
  have n': "mn' = (case mn of
               Finite m \<Rightarrow> Finite (Min (insert m (set (r # scores))))
             | _ \<Rightarrow> if r # scores = [] then PosInf else Finite (Min (set (r # scores))))"
  proof -
    from Cons.prems(2) show ?thesis
    proof
      assume "mn = PosInf"
      then show ?thesis using n by simp
    next
      assume "\<exists>m. mn = Finite m"
      then obtain m where m: "mn = Finite m" by blast
      have "(if r < m then r else m) = min m r" by (simp add: min_def)
      then have "?mn1 = Finite (min m r)" using m by simp
      then show ?thesis using n m by (simp add: Min_insert_min)
    qed
  qed
  show ?case
    using r s c cs' x' n' by (intro exI [of _ "r # scores"]) simp
qed

lemma first_loop_total:
  assumes "map (\<lambda>c. score c ratio) cs = map Inr scores"
  shows "\<exists>cs' mx' mn'. first_loop ratio mx mn cs = Inr (cs', mx', mn')"
  using assms
proof (induction cs arbitrary: mx mn scores)
  case Nil
  then show ?case by simp
next
  case (Cons c cs)
  from Cons.prems obtain r rs where sc: "scores = r # rs" "score c ratio = Inr r"
    "map (\<lambda>c. score c ratio) cs = map Inr rs"
    by (cases scores) auto
  from Cons.IH [OF sc(3)] obtain cs' mx' mn' where
    "first_loop ratio (if r > mx then r else mx)
        (if less_pyfloat r mn then Finite r else mn) cs = Inr (cs', mx', mn')"
    by blast
  then show ?case using sc(2) by (simp add: Let_def)
qed

lemma clamp_limit_idem: "clamp_limit self (clamp_limit self limit) = clamp_limit self limit"
  by (simp add: clamp_limit_def)

lemma second_loop_Inr:
  "second_loop self limit mx mn cs = Inr fs \<Longrightarrow>
   length fs = length cs \<and>
   (\<forall>i<length cs. feature_of self (clamp_limit self limit) mx mn (cs ! i) = Inr (fs ! i))"
proof (induction cs arbitrary: limit fs)
  case Nil
  then show ?case by simp
next
  case (Cons c cs)
  from Cons.prems obtain f fs' where
    f: "feature_of self (clamp_limit self limit) mx mn c = Inr f"
    and rest: "second_loop self (clamp_limit self limit) mx mn cs = Inr fs'"
    and fs: "fs = f # fs'"
    by (auto simp: Let_def split: sum.splits)
  from Cons.IH [OF rest] have
    ih: "length fs' = length cs"
      "\<forall>i<length cs. feature_of self (clamp_limit self limit) mx mn (cs ! i) = Inr (fs' ! i)"
    by (simp_all add: clamp_limit_idem)
  show ?case
    unfolding fs using f ih by (auto simp: nth_Cons split: nat.splits)
qed

lemma second_loop_first_raises:
  "feature_of self (clamp_limit self limit) mx mn c = Inl e \<Longrightarrow>
   second_loop self limit mx mn (c # cs) = Inl e"
  by (simp add: Let_def)

lemma feature_of_Inr:
  assumes "feature_of self limit mx mn c = Inr f"
  shows "icon_size_of self limit c = Inr (marker_size f)
     \<and> (\<exists>r ci. ratio_absolute c = Some r \<and> color_index_of r mx mn = Inr ci
            \<and> marker_color f = hue_of ci)
     \<and> feature_name f = name (to_city c)"
  using assms
  by (auto simp: feature_of_def split: sum.splits option.splits if_splits)

lemma get_geojson_Inr:
  assumes "get_geojson self limit ratio = Inr feats"
  shows "\<exists>scores self'.
      map (\<lambda>c. score c ratio) (py_slice_to self limit) = map Inr scores
    \<and> length feats = length (py_slice_to self limit)
    \<and> map to_city self' = map to_city self
    \<and> (\<forall>i<length feats.
          feature_of self' (clamp_limit self limit)
            (Max (insert 0 (set scores))) (Finite (Min (set scores)))
            ((py_slice_to self limit ! i)\<lparr>ratio_absolute := Some (scores ! i)\<rparr>)
          = Inr (feats ! i))"
proof -
  let ?w = "py_slice_to self limit"
  from assms obtain w' mx mn where
    fl: "first_loop ratio 0 PosInf ?w = Inr (w', mx, mn)"
    and sl: "second_loop (w' @ drop (length w') self) limit mx mn
               (py_slice_to (w' @ drop (length w') self) limit) = Inr feats"
    by (auto simp: get_geojson_def Let_def split: sum.splits prod.splits)
  from first_loop_Inr [OF fl] obtain scores where
    s: "map (\<lambda>c. score c ratio) ?w = map Inr scores"
    and w': "w' = map (\<lambda>(c, r). c\<lparr>ratio_absolute := Some r\<rparr>) (zip ?w scores)"
    and mx: "mx = Max (insert 0 (set scores))"
    and mn: "mn = (if scores = [] then PosInf else Finite (Min (set scores)))"
    by auto
  let ?self' = "w' @ drop (length w') self"
  have ls: "length scores = length ?w"
    using s by (metis length_map)
  have lw: "length w' = length ?w" unfolding w' using ls by simp
  have sl': "py_slice_to ?self' limit = w'"
    by (rule py_slice_to_replace [OF lw])
  have len: "length ?self' = length self"
    using lw py_slice_to_length [of self limit] by simp
  have cl: "clamp_limit ?self' limit = clamp_limit self limit"
    by (simp only: clamp_limit_def len)
  have wt: "map to_city w' = map to_city ?w"
    unfolding w' using ls by (intro nth_equalityI) simp_all
  have wtk: "?w = take (length ?w) self"
    unfolding py_slice_to_def by (cases "0 \<le> limit") (simp_all only: take_length_take if_True if_False)
  have tc: "map to_city ?self' = map to_city self"
  proof -
    have "map to_city ?self' = map to_city ?w @ map to_city (drop (length ?w) self)"
      using wt lw by simp
    also have "\<dots> = map to_city (?w @ drop (length ?w) self)" by simp
    also have "?w @ drop (length ?w) self = self"
      using wtk by (metis append_take_drop_id)
    finally show ?thesis .
  qed
  from second_loop_Inr [OF sl [unfolded sl']] have
    lf: "length feats = length w'"
    and ft: "\<forall>i<length w'. feature_of ?self' (clamp_limit self limit) mx mn (w' ! i)
               = Inr (feats ! i)"
    by (simp_all add: cl)
  have nth: "w' ! i = (?w ! i)\<lparr>ratio_absolute := Some (scores ! i)\<rparr>" if "i < length w'" for i
    using that lw ls unfolding w' by simp
  have mn': "mn = Finite (Min (set scores))" if "i < length feats" for i
    using that lf lw ls mn by auto
  show ?thesis
    using s lf lw tc ft nth mn' mx
    by (intro exI [of _ scores] exI [of _ ?self']) auto
qed


lemma icon_size_of_cong:
  assumes "map to_city self' = map to_city self" and "to_city c' = to_city c"
  shows "icon_size_of self' limit c' = icon_size_of self limit c"
proof -
  have e: "icon_size_of s limit x =
    (case py_index (py_slice_to (map to_city s) limit) (medium_rank limit) of
        Inl e \<Rightarrow> Inl e
      | Inr m \<Rightarrow>
         (case py_index (py_slice_to (map to_city s) limit) (large_rank limit) of
              Inl e \<Rightarrow> Inl e
            | Inr l \<Rightarrow>
              Inr (if population (to_city x) > population l
                   then ''large''
                   else if population (to_city x) > population m
                     then ''medium'' else ''small'')))" for s x
    unfolding icon_size_of_def Let_def py_slice_to_map py_index_map
    by (auto split: sum.splits)
  show ?thesis unfolding e assms ..
qed

lemma icon_size_of_value:
  assumes "1 \<le> limit" and "limit \<le> int (length self)"
  shows "icon_size_of self limit c =
     Inr (if population (to_city c)
              > population (to_city (take (nat limit) self ! nat (large_rank limit)))
          then ''large''
          else if population (to_city c)
              > population (to_city (take (nat limit) self ! nat (medium_rank limit)))
          then ''medium'' else ''small'')"
proof -
  have m: "0 \<le> medium_rank limit" "medium_rank limit < limit"
    using assms(1) by (simp_all add: medium_rank_def)
  have l: "0 \<le> large_rank limit" "large_rank limit < limit"
    using assms(1) by (simp_all add: large_rank_def)
  have len: "int (length (take (nat limit) self)) = limit"
    using assms by simp
  have s: "py_slice_to self limit = take (nat limit) self"
    using assms(1) by (simp add: py_slice_to_def)
  have im: "py_index (take (nat limit) self) (medium_rank limit)
      = Inr (take (nat limit) self ! nat (medium_rank limit))"
    unfolding py_index_def len using m by simp
  have il: "py_index (take (nat limit) self) (large_rank limit)
      = Inr (take (nat limit) self ! nat (large_rank limit))"
    unfolding py_index_def len using l by simp
  show ?thesis
    unfolding icon_size_of_def s im il by (simp add: Let_def)
qed

lemma medium_rank_eq: "medium_rank limit = (2 * (limit - 1)) div 3"
  by (simp only: medium_rank_def mult.commute)

lemmas geojson_defs =
  get_geojson_def loaded_def Connection_init_def py_slice_to_def score_def mean_def Let_def
  clamp_limit_def feature_of_def icon_size_of_def py_index_def medium_rank_def large_rank_def
  color_index_of_def brno_def plzen_def kolin_def praha_def

lemma get_geojson_three_connections:
  "get_geojson three_connections 3 False = Inr three_features"
  by (simp add: geojson_defs three_connections_def three_features_def)

lemma three_connections_distance:
  "map distance (py_slice_to three_connections 3) = [186, 85, 55]"
  by (simp add: py_slice_to_def three_connections_def loaded_def)

lemma equal_connections_scores:
  "map (\<lambda>c. score c False) (py_slice_to equal_connections 2) = [Inr 5400, Inr 5400]"
  by (simp add: py_slice_to_def equal_connections_def loaded_def score_def mean_def)

lemma equal_connections_distance:
  "map distance (py_slice_to equal_connections 2) = [186, 85]"
  by (simp add: py_slice_to_def equal_connections_def loaded_def)

text \<open>
  Claim C6. Whenever \<^verbatim>\<open>get_geojson\<close> returns its features, for connections whose
  distances are not negative (as \<^verbatim>\<open>set_distance\<close> stores them): the scores of the
  window are not all equal, the position of every entry between the smallest and the
  largest score lies in [0, 1], its hue is 0.3333 times (1 - position), the hue of an
  entry with the smallest score is 0.3333 and the hue of an entry with the largest score
  is 0.
\<close>

theorem normalization_in_unit_interval:
  assumes geo: "get_geojson self limit ratio = Inr feats"
    and dist: "\<forall>c\<in>set (py_slice_to self limit). 0 \<le> distance c"
  shows "\<exists>scores.
      map (\<lambda>c. score c ratio) (py_slice_to self limit) = map Inr scores
    \<and> length feats = length scores
    \<and> (\<forall>i<length feats.
          Min (set scores) < Max (set scores)
        \<and> 0 \<le> (scores ! i - Min (set scores)) / (Max (set scores) - Min (set scores))
        \<and> (scores ! i - Min (set scores)) / (Max (set scores) - Min (set scores)) \<le> 1
        \<and> marker_color (feats ! i)
            = Finite (0.3333 * (1 - (scores ! i - Min (set scores))
                                     / (Max (set scores) - Min (set scores))))
        \<and> (scores ! i = Min (set scores) \<longrightarrow> marker_color (feats ! i) = Finite 0.3333)
        \<and> (scores ! i = Max (set scores) \<longrightarrow> marker_color (feats ! i) = Finite 0))"
proof -
  let ?w = "py_slice_to self limit"
  from get_geojson_Inr [OF geo] obtain scores self' where
    s: "map (\<lambda>c. score c ratio) ?w = map Inr scores"
    and lf: "length feats = length ?w"
    and ft: "\<forall>i<length feats.
          feature_of self' (clamp_limit self limit)
            (Max (insert 0 (set scores))) (Finite (Min (set scores)))
            ((?w ! i)\<lparr>ratio_absolute := Some (scores ! i)\<rparr>)
          = Inr (feats ! i)"
    by blast
  have ls: "length scores = length ?w" using s by (metis length_map)
  have nn: "\<forall>j<length scores. 0 \<le> scores ! j"
    using scores_nonneg [OF s dist] by blast
  have "Min (set scores) < Max (set scores)
        \<and> 0 \<le> (scores ! i - Min (set scores)) / (Max (set scores) - Min (set scores))
        \<and> (scores ! i - Min (set scores)) / (Max (set scores) - Min (set scores)) \<le> 1
        \<and> marker_color (feats ! i)
            = Finite (0.3333 * (1 - (scores ! i - Min (set scores))
                                     / (Max (set scores) - Min (set scores))))
        \<and> (scores ! i = Min (set scores) \<longrightarrow> marker_color (feats ! i) = Finite 0.3333)
        \<and> (scores ! i = Max (set scores) \<longrightarrow> marker_color (feats ! i) = Finite 0)"
    if i: "i < length feats" for i
  proof -
    define mn where "mn = Min (set scores)"
    define mx where "mx = Max (set scores)"
    define r where "r = scores ! i"
    have il: "i < length scores" using i lf ls by simp
    have mx0: "Max (insert 0 (set scores)) = mx"
      unfolding mx_def by (rule Max_insert_0 [OF il nn])
    have lo: "mn \<le> r" unfolding mn_def r_def using il by simp
    have hi: "r \<le> mx" unfolding mx_def r_def using il by simp
    from ft i have "feature_of self' (clamp_limit self limit) mx (Finite mn)
            ((?w ! i)\<lparr>ratio_absolute := Some r\<rparr>) = Inr (feats ! i)"
      by (simp add: mx0 mn_def r_def)
    from feature_of_Inr [OF this] obtain ci where
      ci: "color_index_of r mx (Finite mn) = Inr ci"
      and col: "marker_color (feats ! i) = hue_of ci"
      by auto
    from ci have ne: "mx - mn \<noteq> 0" and civ: "ci = Finite ((r - mn) / (mx - mn))"
      by (auto simp: color_index_of_def split: if_splits)
    have lt: "mn < mx" using ne lo hi by linarith
    have t0: "0 \<le> (r - mn) / (mx - mn)" using lo lt by simp
    have t1: "(r - mn) / (mx - mn) \<le> 1" using hi lt by simp
    have hue: "0.3333 - 0.3333 * t = 0.3333 * (1 - t)" for t :: real
      by (simp only: right_diff_distrib mult_1_right)
    have h: "marker_color (feats ! i) = Finite (0.3333 * (1 - (r - mn) / (mx - mn)))"
      unfolding col civ hue_of.simps hue ..
    have hmin: "r = mn \<longrightarrow> marker_color (feats ! i) = Finite 0.3333"
      unfolding h by simp
    have hmax: "r = mx \<longrightarrow> marker_color (feats ! i) = Finite 0"
      unfolding h using lt by simp
    show ?thesis
      using lt t0 t1 h hmin hmax unfolding mn_def mx_def r_def by blast
  qed
  then have per_feature: "\<forall>i<length feats.
          Min (set scores) < Max (set scores)
        \<and> 0 \<le> (scores ! i - Min (set scores)) / (Max (set scores) - Min (set scores))
        \<and> (scores ! i - Min (set scores)) / (Max (set scores) - Min (set scores)) \<le> 1
        \<and> marker_color (feats ! i)
            = Finite (0.3333 * (1 - (scores ! i - Min (set scores))
                                     / (Max (set scores) - Min (set scores))))
        \<and> (scores ! i = Min (set scores) \<longrightarrow> marker_color (feats ! i) = Finite 0.3333)
        \<and> (scores ! i = Max (set scores) \<longrightarrow> marker_color (feats ! i) = Finite 0)"
    by blast
  have "length feats = length scores" using lf ls by simp
  with s per_feature show ?thesis by blast
qed

text \<open>
  The theorem at three connections with the mean durations 9300, 5400 and 2700.
\<close>

theorem normalization_in_unit_interval_witness:
  "get_geojson three_connections 3 False = Inr three_features
   \<and> map distance (py_slice_to three_connections 3) = [186, 85, 55]
   \<and> (\<exists>scores.
      map (\<lambda>c. score c False) (py_slice_to three_connections 3) = map Inr scores
    \<and> length three_features = length scores
    \<and> (\<forall>i<length three_features.
          Min (set scores) < Max (set scores)
        \<and> 0 \<le> (scores ! i - Min (set scores)) / (Max (set scores) - Min (set scores))
        \<and> (scores ! i - Min (set scores)) / (Max (set scores) - Min (set scores)) \<le> 1
        \<and> marker_color (three_features ! i)
            = Finite (0.3333 * (1 - (scores ! i - Min (set scores))
                                     / (Max (set scores) - Min (set scores))))
        \<and> (scores ! i = Min (set scores) \<longrightarrow> marker_color (three_features ! i) = Finite 0.3333)
        \<and> (scores ! i = Max (set scores) \<longrightarrow> marker_color (three_features ! i) = Finite 0)))"
proof -
  have d: "\<forall>c\<in>set (py_slice_to three_connections 3). 0 \<le> distance c"
  proof
    fix c assume "c \<in> set (py_slice_to three_connections 3)"
    then have "distance c \<in> set (map distance (py_slice_to three_connections 3))" by simp
    then show "0 \<le> distance c" unfolding three_connections_distance by auto
  qed
  show ?thesis
    using normalization_in_unit_interval [OF get_geojson_three_connections d]
      get_geojson_three_connections three_connections_distance
    by blast
qed

text \<open>
  Claim C7. For a limit that is not negative, the window is clamped to the number of
  connections, and in every returned feature the size is large exactly when the
  population exceeds that of the window's entry at rank (L - 1) div 3, medium when it is
  not large and exceeds that of the entry at rank (2 * (L - 1)) div 3, and small
  otherwise. For L = 9 the two ranks are 2 and 5.
\<close>

theorem icon_size_by_population_rank:
  assumes geo: "get_geojson self limit ratio = Inr feats" and nn: "0 \<le> limit"
  shows "length feats = nat (clamp_limit self limit)
    \<and> clamp_limit self limit = min limit (int (length self))
    \<and> (\<forall>i<length feats.
          marker_size (feats ! i) =
            (if population (to_city (self ! i))
                > population (to_city (take (nat (clamp_limit self limit)) self
                                        ! nat ((clamp_limit self limit - 1) div 3)))
             then ''large''
             else if population (to_city (self ! i))
                > population (to_city (take (nat (clamp_limit self limit)) self
                                        ! nat ((2 * (clamp_limit self limit - 1)) div 3)))
             then ''medium'' else ''small''))
    \<and> large_rank 9 = 2 \<and> medium_rank 9 = 5"
proof -
  let ?L = "clamp_limit self limit"
  let ?w = "py_slice_to self limit"
  have w: "?w = take (nat ?L) self" by (rule py_slice_to_take [OF nn])
  have L: "0 \<le> ?L" "?L \<le> int (length self)"
    using nn by (simp_all add: clamp_limit_def)
  from get_geojson_Inr [OF geo] obtain scores self' where
    lf: "length feats = length ?w"
    and tc: "map to_city self' = map to_city self"
    and ft: "\<forall>i<length feats.
          feature_of self' ?L
            (Max (insert 0 (set scores))) (Finite (Min (set scores)))
            ((?w ! i)\<lparr>ratio_absolute := Some (scores ! i)\<rparr>)
          = Inr (feats ! i)"
    by blast
  have len: "length feats = nat ?L" using lf w L by simp
  have "marker_size (feats ! i) =
            (if population (to_city (self ! i))
                > population (to_city (take (nat ?L) self ! nat ((?L - 1) div 3)))
             then ''large''
             else if population (to_city (self ! i))
                > population (to_city (take (nat ?L) self ! nat ((2 * (?L - 1)) div 3)))
             then ''medium'' else ''small'')"
    if i: "i < length feats" for i
  proof -
    let ?c = "(?w ! i)\<lparr>ratio_absolute := Some (scores ! i)\<rparr>"
    have L1: "1 \<le> ?L" using i len by linarith
    have wi: "?w ! i = self ! i" using i len w by simp
    from ft i have "feature_of self' ?L (Max (insert 0 (set scores)))
        (Finite (Min (set scores))) ?c = Inr (feats ! i)" by simp
    from feature_of_Inr [OF this]
    have "icon_size_of self' ?L ?c = Inr (marker_size (feats ! i))" by simp
    moreover have "icon_size_of self' ?L ?c = icon_size_of self ?L (self ! i)"
      by (rule icon_size_of_cong [OF tc]) (simp add: wi)
    ultimately have "Inr (marker_size (feats ! i)) = icon_size_of self ?L (self ! i)"
      by simp
    then have "marker_size (feats ! i) =
       (if population (to_city (self ! i))
              > population (to_city (take (nat ?L) self ! nat (large_rank ?L)))
        then ''large''
        else if population (to_city (self ! i))
              > population (to_city (take (nat ?L) self ! nat (medium_rank ?L)))
        then ''medium'' else ''small'')"
      unfolding icon_size_of_value [OF L1 L(2)] by (simp only: sum.inject)
    then show ?thesis
      unfolding large_rank_def medium_rank_eq .
  qed
  moreover have "?L = min limit (int (length self))"
    by (simp add: clamp_limit_def min_def)
  moreover have "large_rank 9 = 2" "medium_rank 9 = 5"
    by (simp_all add: large_rank_def medium_rank_def)
  ultimately show ?thesis using len by blast
qed

text \<open>
  The theorem at three connections: the ranks are 0 and 1.
\<close>

theorem icon_size_by_population_rank_witness:
  "get_geojson three_connections 3 False = Inr three_features \<and> (0::int) \<le> 3
   \<and> length three_features = 3
   \<and> map marker_size three_features = [''medium'', ''small'', ''small'']
   \<and> marker_size (three_features ! 0) =
        (if population (to_city (three_connections ! 0))
              > population (to_city (take 3 three_connections ! 0))
         then ''large''
         else if population (to_city (three_connections ! 0))
              > population (to_city (take 3 three_connections ! 1))
         then ''medium'' else ''small'')"
proof -
  have c: "clamp_limit three_connections 3 = 3"
    by (simp add: clamp_limit_def three_connections_def)
  have l: "length three_features = 3" by (simp add: three_features_def)
  have m: "map marker_size three_features = [''medium'', ''small'', ''small'']"
    by (simp add: three_features_def)
  from icon_size_by_population_rank [OF get_geojson_three_connections, unfolded c l]
  have "\<forall>i<3. marker_size (three_features ! i) =
            (if population (to_city (three_connections ! i))
                > population (to_city (take (nat 3) three_connections ! nat ((3 - 1) div 3)))
             then ''large''
             else if population (to_city (three_connections ! i))
                > population (to_city (take (nat 3) three_connections ! nat ((2 * (3 - 1)) div 3)))
             then ''medium'' else ''small'')"
    by simp
  then have "marker_size (three_features ! 0) =
        (if population (to_city (three_connections ! 0))
              > population (to_city (take 3 three_connections ! 0))
         then ''large''
         else if population (to_city (three_connections ! 0))
              > population (to_city (take 3 three_connections ! 1))
         then ''medium'' else ''small'')"
    by simp
  then show ?thesis using get_geojson_three_connections l m by simp
qed

text \<open>
  Claim C2, as stated, fails: with a single connection in the window the largest and the
  smallest score are equal, and \<^verbatim>\<open>get_geojson\<close> raises ZeroDivisionError at line 337.
\<close>

theorem get_geojson_single_connection:
  "get_geojson single_connection 1 False = Inl ZeroDivisionError"
  by (simp add: geojson_defs single_connection_def)

text \<open>
  Claim C2, amended. When the window is not empty and all its scores are equal (distances
  not negative), \<^verbatim>\<open>get_geojson\<close> raises ZeroDivisionError: no entry gets a position.
\<close>

theorem equal_scores_raise:
  assumes lim: "0 < limit" and ne: "self \<noteq> []"
    and eq: "\<forall>c\<in>set (py_slice_to self limit). score c ratio = Inr s"
    and dist: "\<forall>c\<in>set (py_slice_to self limit). 0 \<le> distance c"
  shows "get_geojson self limit ratio = Inl ZeroDivisionError"
proof -
  let ?w = "py_slice_to self limit"
  let ?L = "clamp_limit self limit"
  have nn: "0 \<le> limit" using lim by simp
  have w: "?w = take (nat ?L) self" by (rule py_slice_to_take [OF nn])
  have L: "1 \<le> ?L" "?L \<le> int (length self)"
    using lim ne by (simp_all add: clamp_limit_def Suc_le_eq)
  have wl: "length ?w = nat ?L" using w L by simp
  then have wne: "?w \<noteq> []" using L by auto
  have sc: "map (\<lambda>c. score c ratio) ?w = map Inr (replicate (length ?w) s)"
    using eq by (intro nth_equalityI) simp_all
  from first_loop_total [OF sc] obtain w' mx mn where
    fl: "first_loop ratio 0 PosInf ?w = Inr (w', mx, mn)" by blast
  from first_loop_Inr [OF fl] obtain scores where
    s: "map (\<lambda>c. score c ratio) ?w = map Inr scores"
    and w': "w' = map (\<lambda>(c, r). c\<lparr>ratio_absolute := Some r\<rparr>) (zip ?w scores)"
    and mx: "mx = Max (insert 0 (set scores))"
    and mn: "mn = (if scores = [] then PosInf else Finite (Min (set scores)))"
    by auto
  have "map Inr scores = (map Inr (replicate (length ?w) s) :: (py_error + real) list)"
    using s sc by simp
  then have scores: "scores = replicate (length ?w) s"
    using inj_map_eq_map [of "Inr :: real \<Rightarrow> py_error + real"] inj_Inr by blast
  have sne: "scores \<noteq> []" "set scores = {s}" using wne scores by auto
  have s0: "0 \<le> s"
  proof -
    have "hd ?w \<in> set ?w" using wne by simp
    then have "score (hd ?w) ratio = Inr s" "0 \<le> distance (hd ?w)"
      using eq dist by blast+
    then show ?thesis by (rule score_nonneg)
  qed
  have mxs: "mx = s" unfolding mx sne using s0 by (simp add: max_def)
  have mns: "mn = Finite s" unfolding mn using sne by simp
  let ?self' = "w' @ drop (length w') self"
  have lw: "length w' = length ?w" unfolding w' scores by simp
  have sl': "py_slice_to ?self' limit = w'" by (rule py_slice_to_replace [OF lw])
  have len: "length ?self' = length self"
    using lw py_slice_to_length [of self limit] by simp
  have cl: "clamp_limit ?self' limit = ?L" by (simp only: clamp_limit_def len)
  obtain c0 rest where w0: "w' = c0 # rest" using lw wne by (cases w') auto
  have c0: "ratio_absolute c0 = Some s"
  proof -
    have "c0 = w' ! 0" using w0 by simp
    also have "\<dots> = (?w ! 0)\<lparr>ratio_absolute := Some (scores ! 0)\<rparr>"
      unfolding w' using wne sne by (simp add: scores)
    finally show ?thesis using wne by (simp add: scores)
  qed
  have "\<exists>sz. icon_size_of ?self' ?L c0 = Inr sz"
    using icon_size_of_value [of ?L ?self' c0] L len by simp
  then obtain sz where sz: "icon_size_of ?self' ?L c0 = Inr sz" by blast
  have "feature_of ?self' ?L mx mn c0 = Inl ZeroDivisionError"
    unfolding feature_of_def sz c0 mxs mns by (simp add: color_index_of_def)
  then have "second_loop ?self' limit mx mn (c0 # rest) = Inl ZeroDivisionError"
    using cl by (intro second_loop_first_raises) simp
  then show ?thesis
    unfolding get_geojson_def fl using sl' w0 by (simp add: Let_def)
qed

text \<open>
  The theorem at two connections with the same mean duration.
\<close>

theorem equal_scores_raise_witness:
  "(0::int) < 2 \<and> equal_connections \<noteq> []
   \<and> map (\<lambda>c. score c False) (py_slice_to equal_connections 2) = [Inr 5400, Inr 5400]
   \<and> map distance (py_slice_to equal_connections 2) = [186, 85]
   \<and> get_geojson equal_connections 2 False = Inl ZeroDivisionError"
proof -
  have l: "(0::int) < 2" by simp
  have n: "equal_connections \<noteq> []" by (simp add: equal_connections_def)
  have s: "\<forall>c\<in>set (py_slice_to equal_connections 2). score c False = Inr 5400"
  proof
    fix c assume "c \<in> set (py_slice_to equal_connections 2)"
    then have "score c False
        \<in> set (map (\<lambda>c. score c False) (py_slice_to equal_connections 2))" by simp
    then show "score c False = Inr 5400" unfolding equal_connections_scores by auto
  qed
  have d: "\<forall>c\<in>set (py_slice_to equal_connections 2). 0 \<le> distance c"
  proof
    fix c assume "c \<in> set (py_slice_to equal_connections 2)"
    then have "distance c \<in> set (map distance (py_slice_to equal_connections 2))" by simp
    then show "0 \<le> distance c" unfolding equal_connections_distance by auto
  qed
  show ?thesis
    using equal_scores_raise [OF l n s d] l n equal_connections_scores
      equal_connections_distance
    by blast
qed

section \<open>Unusable destinations\<close>













end
